theory Spec2Isabelle
  imports Complex_Main
begin

section \<open>JSON values and the JavaScript tests applied to them\<close>

text \<open>
  The server handles values that came out of \<open>JSON.parse\<close> (the request body, parsed by
  \<open>express.json\<close>, and the provider's payload). A number is the real it denotes
  (\<open>JSON.parse\<close> yields no NaN and no infinity, and \<open>-0\<close> denotes \<open>0\<close>); the code only
  tests numbers for truthiness. An object is its list of own properties in insertion
  order. A property or variable that may be \<open>undefined\<close> is a \<open>json option\<close>.
\<close>

datatype json =
    JNull
  | JBool bool
  | JNum real
  | JStr string
  | JArr "json list"
  | JObj "(string \<times> json) list"

text \<open>JavaScript's \<open>ToBoolean\<close>: what \<open>!v\<close> and \<open>v || d\<close> test.\<close>

fun truthy :: "json option \<Rightarrow> bool" where
  "truthy None = False"
| "truthy (Some JNull) = False"
| "truthy (Some (JBool b)) = b"
| "truthy (Some (JNum n)) = (n \<noteq> 0)"
| "truthy (Some (JStr s)) = (s \<noteq> [])"
| "truthy (Some (JArr _)) = True"
| "truthy (Some (JObj _)) = True"

datatype js_type = TUndefined | TObject | TBoolean | TNumber | TString

fun typeof :: "json option \<Rightarrow> js_type" where
  "typeof None = TUndefined"
| "typeof (Some JNull) = TObject"
| "typeof (Some (JBool _)) = TBoolean"
| "typeof (Some (JNum _)) = TNumber"
| "typeof (Some (JStr _)) = TString"
| "typeof (Some (JArr _)) = TObject"
| "typeof (Some (JObj _)) = TObject"

text \<open>\<open>a || d\<close> where \<open>d\<close> is a value.\<close>

definition or_default :: "json option \<Rightarrow> json \<Rightarrow> json" where
  "or_default v d = (case v of None \<Rightarrow> d | Some x \<Rightarrow> if truthy (Some x) then x else d)"

text \<open>
  \<open>String.prototype.trim\<close> removes white space and line terminators at both ends. Of the
  characters a \<open>char\<close> can hold these are tab, line feed, vertical tab, form feed,
  carriage return, space and no-break space.
\<close>

definition is_space :: "char \<Rightarrow> bool" where
  "is_space c = (c \<in> set [CHR 0x09, CHR 0x0A, CHR 0x0B, CHR 0x0C, CHR 0x0D, CHR 0x20, CHR 0xA0])"

definition trim :: "string \<Rightarrow> string" where
  "trim s = rev (dropWhile is_space (rev (dropWhile is_space s)))"

text \<open>The string held by a value known to be a string.\<close>

fun str_of :: "json option \<Rightarrow> string" where
  "str_of (Some (JStr s)) = s"
| "str_of _ = []"

text \<open>The value held by a variable known to be defined.\<close>

fun val_of :: "json option \<Rightarrow> json" where
  "val_of (Some v) = v"
| "val_of None = JNull"

text \<open>\<open>lines.join('\n')\<close>.\<close>

fun join_lines :: "string list \<Rightarrow> string" where
  "join_lines [] = []"
| "join_lines [l] = l"
| "join_lines (l # ls) = l @ [CHR 0x0A] @ join_lines ls"

text \<open>
  Reading the own property \<open>k\<close> of an object, and the assignment \<open>o.k = v\<close>: an existing
  property keeps its place, a new one goes last.
\<close>

definition get_prop :: "(string \<times> json) list \<Rightarrow> string \<Rightarrow> json option" where
  "get_prop ps k = map_of ps k"

fun set_prop :: "(string \<times> json) list \<Rightarrow> string \<Rightarrow> json \<Rightarrow> (string \<times> json) list" where
  "set_prop [] k v = [(k, v)]"
| "set_prop ((k', v') # ps) k v = (if k' = k then (k, v) # ps else (k', v') # set_prop ps k v)"

section \<open>Errors, the environment and the trace of effects\<close>

text \<open>
  A thrown JavaScript error; the handlers read only its \<open>message\<close>. \<open>ProviderError\<close> is a
  rejection of a provider call (the SDK's time-out is one of them), \<open>SyntaxError\<close> comes
  from \<open>JSON.parse\<close>, \<open>TypeError\<close> from a property access on a value that has none.
\<close>

datatype error = ProviderError string | SyntaxError string | TypeError string

fun message :: "error \<Rightarrow> string" where
  "message (ProviderError m) = m"
| "message (SyntaxError m) = m"
| "message (TypeError m) = m"

datatype role = System | User

datatype text_format = JsonSchema string json bool | JsonObject

record responses_request =
  rq_model :: string
  rq_input :: "(role \<times> string) list"
  rq_temperature :: nat
  rq_max_output_tokens :: nat
  rq_text_format :: text_format

record chat_request =
  cq_model :: string
  cq_temperature :: nat
  cq_response_format :: text_format
  cq_messages :: "(role \<times> string) list"

text \<open>
  What the code reads from a reply. Of a Responses reply: \<open>output_text\<close> and
  \<open>output?.[0]?.content?.[0]?.text\<close>, each \<open>None\<close> when null or undefined. Of a chat
  completion: for each element of \<open>choices\<close>, its \<open>message?.content\<close>.
\<close>

record responses_reply =
  output_text :: "string option"
  output_0_content_0_text :: "string option"

record chat_completion =
  choices :: "string option list"

text \<open>
  Everything outside the repository that the server consults: the process environment,
  the provider behind the SDK client (\<open>Inl\<close> is the message of the error the call rejects
  with), the file system, and the built-ins \<open>JSON.parse\<close> (\<open>Inl\<close> is the message of its
  \<open>SyntaxError\<close>), \<open>JSON.stringify(v, null, 2)\<close> and the engine's wording of a
  \<open>TypeError\<close>.
\<close>

record env =
  OPENAI_API_KEY :: "string option"
  env_OPENAI_MODEL :: "string option"
  responses_create :: "responses_request \<Rightarrow> string + responses_reply"
  chat_completions_create :: "chat_request \<Rightarrow> string + chat_completion"
  readFile :: "string \<Rightarrow> string option"
  JSON_parse :: "string \<Rightarrow> string + json"
  JSON_stringify :: "json \<Rightarrow> string"
  type_error_message :: "json \<Rightarrow> string"

text \<open>The effects of an operation, in the order they happen.\<close>

datatype event =
    ResponsesCreate responses_request
  | ChatCompletionsCreate chat_request
  | ReadFile string


fun is_file_read :: "event \<Rightarrow> bool" where
  "is_file_read (ReadFile _) = True"
| "is_file_read _ = False"

text \<open>\<open>let OPENAI_MODEL = process.env.OPENAI_MODEL || 'gpt-5'\<close>.\<close>

definition OPENAI_MODEL :: "env \<Rightarrow> string" where
  "OPENAI_MODEL e = (case env_OPENAI_MODEL e of None \<Rightarrow> ''gpt-5'' | Some m \<Rightarrow> if m = [] then ''gpt-5'' else m)"

text \<open>\<open>!process.env.OPENAI_API_KEY\<close>.\<close>

definition api_key_missing :: "env \<Rightarrow> bool" where
  "api_key_missing e = (case OPENAI_API_KEY e of None \<Rightarrow> True | Some k \<Rightarrow> k = [])"

section \<open>Reading the about-me file\<close>

text \<open>
  \<open>readAboutMeFromDisk\<close>: the two candidate paths, relative to the working directory, are
  tried in order; a file that cannot be read or is blank is skipped.
\<close>

definition candidates :: "string list" where
  "candidates = [''../aboutme.txt'', ''aboutme.txt'']"

fun read_candidates :: "env \<Rightarrow> string list \<Rightarrow> string option \<times> event list" where
  "read_candidates e [] = (None, [])"
| "read_candidates e (p # ps) =
     (case readFile e p of
        None \<Rightarrow> (case read_candidates e ps of (r, tr) \<Rightarrow> (r, ReadFile p # tr))
      | Some content \<Rightarrow>
          if trim content \<noteq> [] then (Some content, [ReadFile p])
          else (case read_candidates e ps of (r, tr) \<Rightarrow> (r, ReadFile p # tr)))"

definition readAboutMeFromDisk :: "env \<Rightarrow> string option \<times> event list" where
  "readAboutMeFromDisk e = read_candidates e candidates"

section \<open>Schema and prompts\<close>

text \<open>\<open>buildJsonSchema\<close>: the formal constraint sent with the schema-constrained call.\<close>

definition string_type :: json where
  \<open>string_type = JObj [(''type'', JStr ''string'')]\<close>

definition string_array :: json where
  \<open>string_array = JObj [(''type'', JStr ''array''), (''items'', string_type)]\<close>

definition buildJsonSchema :: json where
  \<open>buildJsonSchema = JObj [
     (''type'', JStr ''object''),
     (''additionalProperties'', JBool False),
     (''required'', JArr [JStr ''name'', JStr ''title'', JStr ''contact'', JStr ''summary'',
        JStr ''skills'', JStr ''experience'']),
     (''properties'', JObj [
        (''name'', string_type),
        (''title'', string_type),
        (''contact'', JObj [
           (''type'', JStr ''object''),
           (''additionalProperties'', JBool False),
           (''properties'', JObj [
              (''email'', string_type),
              (''phone'', string_type),
              (''location'', string_type),
              (''website'', string_type),
              (''linkedin'', string_type),
              (''github'', string_type)])]),
        (''summary'', string_type),
        (''skills'', JObj [
           (''type'', JStr ''object''),
           (''additionalProperties'', JBool False),
           (''required'', JArr [JStr ''core'']),
           (''properties'', JObj [
              (''core'', string_array),
              (''tools'', string_array),
              (''other'', string_array)])]),
        (''experience'', JObj [
           (''type'', JStr ''array''),
           (''items'', JObj [
              (''type'', JStr ''object''),
              (''additionalProperties'', JBool False),
              (''required'', JArr [JStr ''company'', JStr ''role'', JStr ''bullets'']),
              (''properties'', JObj [
                 (''company'', string_type),
                 (''role'', string_type),
                 (''location'', string_type),
                 (''startDate'', string_type),
                 (''endDate'', string_type),
                 (''bullets'', string_array)])])]),
        (''projects'', JObj [
           (''type'', JStr ''array''),
           (''items'', JObj [
              (''type'', JStr ''object''),
              (''additionalProperties'', JBool False),
              (''required'', JArr [JStr ''name'', JStr ''description'']),
              (''properties'', JObj [
                 (''name'', string_type),
                 (''description'', string_type),
                 (''bullets'', string_array),
                 (''link'', string_type),
                 (''technologies'', string_array)])])]),
        (''education'', JObj [
           (''type'', JStr ''array''),
           (''items'', JObj [
              (''type'', JStr ''object''),
              (''additionalProperties'', JBool False),
              (''required'', JArr [JStr ''school'']),
              (''properties'', JObj [
                 (''school'', string_type),
                 (''degree'', string_type),
                 (''graduationDate'', string_type),
                 (''details'', string_array)])])]),
        (''certifications'', string_array)])]\<close>

text \<open>\<open>buildSystemPrompt\<close>.\<close>

definition buildSystemPrompt :: string where
  \<open>buildSystemPrompt = join_lines [
     ''You are an expert resume writer optimizing resumes for ATS systems.'',
     ''Generate a concise, accomplishment-driven resume based on the candidate'' @ [CHR 0x27] @
       ''s background and the target role.'',
     ''CRITICAL: The resume MUST fit on EXACTLY ONE PAGE when rendered. Aim to fill 95-100% of the page.'',
     ''Return ONLY strict JSON matching the provided schema. No prose outside JSON.'',
     ''Guidelines:'',
     ''- Use short, impact-focused bullet points starting with strong verbs.'',
     ''- Quantify results where possible (%, $, time saved).'',
     ''- Prioritize keywords relevant to the target job description.'',
     ''- Avoid flowery language, keep sentences scannable.'',
     ''- Never invent facts beyond the candidate input; fill unknowns with best-effort from about me.'',
     ''- Target 3-5 experience items with 3-4 bullets each for optimal one-page fit.'',
     ''- IMPORTANT: For experiences at "Oracle" and "UC Berkeley Consulting Club", include ONLY ONE short, concise bullet point each.'',
     ''- IMPORTANT: In the projects section, include ONLY the "Original Joe'' @ [CHR 0x27] @
       ''s" project.'',
     ''- Keep summary to 2-3 sentences maximum.'',
     ''- Be concise but comprehensive - every word should add value.'']\<close>

text \<open>The structural template that \<open>buildUserPrompt\<close> serialises into the user text.\<close>

definition schema_template :: json where
  \<open>schema_template = JObj [
     (''name'', JStr ''string''),
     (''title'', JStr ''string''),
     (''contact'', JObj [
        (''email'', JStr ''string?''),
        (''phone'', JStr ''string?''),
        (''location'', JStr ''string?''),
        (''website'', JStr ''string?''),
        (''linkedin'', JStr ''string?''),
        (''github'', JStr ''string?'')]),
     (''summary'', JStr ''string''),
     (''skills'', JObj [
        (''core'', JArr [JStr ''string'']),
        (''tools'', JArr [JStr ''string?'']),
        (''other'', JArr [JStr ''string?''])]),
     (''experience'', JArr [JObj [
        (''company'', JStr ''string''),
        (''role'', JStr ''string''),
        (''location'', JStr ''string?''),
        (''startDate'', JStr ''string?''),
        (''endDate'', JStr ''string?''),
        (''bullets'', JArr [JStr ''string''])]]),
     (''projects'', JArr [JObj [
        (''name'', JStr ''string''),
        (''description'', JStr ''string''),
        (''bullets'', JArr [JStr ''string?'']),
        (''link'', JStr ''string?''),
        (''technologies'', JArr [JStr ''string?''])]]),
     (''education'', JArr [JObj [
        (''school'', JStr ''string''),
        (''degree'', JStr ''string?''),
        (''graduationDate'', JStr ''string?''),
        (''details'', JArr [JStr ''string?''])]]),
     (''certifications'', JArr [JStr ''string?''])]\<close>

definition buildUserPrompt :: "env \<Rightarrow> string \<Rightarrow> string \<Rightarrow> string" where
  \<open>buildUserPrompt e aboutMe targetText = join_lines [
     ''ABOUT_ME:'',
     aboutMe,
     [],
     ''TARGET_COMPANY_AND_JOB:'',
     targetText,
     [],
     ''Output strict JSON for this TypeScript-like schema:'',
     JSON_stringify e schema_template,
     [],
     ''Rules:'',
     ''- Return JSON only. No backticks. No commentary.'',
     ''- Keep bullet items crisp, 1 line each.'',
     ''- Align content with target role keywords.'']\<close>

text \<open>The two prompts that the refine handler builds inline.\<close>

definition refine_systemPrompt :: string where
  \<open>refine_systemPrompt = join_lines [
     ''You are an expert resume writer refining a resume to fit exactly one page.'',
     ''Your task is to adjust the existing resume based on feedback about its length.'',
     ''Return ONLY strict JSON matching the provided schema. No prose outside JSON.'',
     ''Guidelines:'',
     ''- When told to CONDENSE: shorten bullet points, reduce wordiness, combine similar points, remove less impactful items.'',
     ''- When told to EXPAND: elaborate on achievements, add quantifiable details, expand descriptions.'',
     ''- Keep the same structure and sections, just adjust content length.'',
     ''- Preserve all key accomplishments and quantifiable results.'',
     ''- Maintain professional tone and ATS optimization.'']\<close>

definition refine_userPrompt :: "env \<Rightarrow> json \<Rightarrow> string \<Rightarrow> string" where
  \<open>refine_userPrompt e resume feedback = join_lines [
     ''Current resume (JSON):'',
     JSON_stringify e resume,
     [],
     ''FEEDBACK:'',
     feedback,
     [],
     ''Return the refined resume as strict JSON only. No backticks. No commentary.'']\<close>

section \<open>The generation client\<close>

text \<open>\<open>/^gpt-5/i.test(m)\<close>: the first five characters are \<open>gpt-5\<close>, letters in either case.\<close>

fun useResponses :: "string \<Rightarrow> bool" where
  "useResponses (g # p # t # h # d # _) =
     ((g = CHR ''g'' \<or> g = CHR ''G'') \<and> (p = CHR ''p'' \<or> p = CHR ''P'') \<and>
      (t = CHR ''t'' \<or> t = CHR ''T'') \<and> h = CHR ''-'' \<and> d = CHR ''5'')"
| "useResponses _ = False"

text \<open>
  Tier 1, the schema-constrained call: \<open>openai.responses.create\<close> with the schema, then the
  payload \<open>output_text ?? output?.[0]?.content?.[0]?.text ?? '{}'\<close> goes to \<open>JSON.parse\<close>.
  The result is what the \<open>try\<close> block evaluates to: a parsed value, or the error thrown.
\<close>

definition tier1_request :: "env \<Rightarrow> string \<Rightarrow> string \<Rightarrow> responses_request" where
  "tier1_request e system user =
     \<lparr>rq_model = OPENAI_MODEL e,
      rq_input = [(System, system), (User, user)],
      rq_temperature = 1,
      rq_max_output_tokens = 2000,
      rq_text_format = JsonSchema ''resume_schema'' buildJsonSchema True\<rparr>"

definition responses_payload :: "responses_reply \<Rightarrow> string" where
  "responses_payload r =
     (case output_text r of
        Some t \<Rightarrow> t
      | None \<Rightarrow> (case output_0_content_0_text r of Some t \<Rightarrow> t | None \<Rightarrow> ''{}''))"

definition parse_json :: "env \<Rightarrow> string \<Rightarrow> error + json" where
  "parse_json e t = (case JSON_parse e t of Inl m \<Rightarrow> Inl (SyntaxError m) | Inr v \<Rightarrow> Inr v)"

definition tier1 :: "env \<Rightarrow> string \<Rightarrow> string \<Rightarrow> (error + json) \<times> event list" where
  "tier1 e system user =
     (let rq = tier1_request e system user in
      (case responses_create e rq of
         Inl m \<Rightarrow> Inl (ProviderError m)
       | Inr response \<Rightarrow> parse_json e (responses_payload response),
       [ResponsesCreate rq]))"

text \<open>
  Tier 2, the free-form JSON-mode call: \<open>openai.chat.completions.create\<close>, then the payload
  \<open>completion.choices[0]?.message?.content || '{}'\<close> goes to \<open>JSON.parse\<close>.
\<close>

definition tier2_request :: "env \<Rightarrow> string \<Rightarrow> string \<Rightarrow> chat_request" where
  "tier2_request e system user =
     \<lparr>cq_model = OPENAI_MODEL e,
      cq_temperature = 1,
      cq_response_format = JsonObject,
      cq_messages = [(System, system), (User, user)]\<rparr>"

definition chat_payload :: "chat_completion \<Rightarrow> string" where
  "chat_payload c =
     (case choices c of
        [] \<Rightarrow> ''{}''
      | content # _ \<Rightarrow> (case content of None \<Rightarrow> ''{}'' | Some t \<Rightarrow> if t = [] then ''{}'' else t))"

definition tier2 :: "env \<Rightarrow> string \<Rightarrow> string \<Rightarrow> (error + json) \<times> event list" where
  "tier2 e system user =
     (let cq = tier2_request e system user in
      (case chat_completions_create e cq of
         Inl m \<Rightarrow> Inl (ProviderError m)
       | Inr completion \<Rightarrow> parse_json e (chat_payload completion),
       [ChatCompletionsCreate cq]))"

text \<open>
  The two-tier strategy, as \<open>generateWithOpenAI\<close> (lines 245 to 282) and the refine
  handler (lines 396 to 444) both write it: tier 1 only for a \<open>gpt-5\<close> model, and whatever
  its \<open>try\<close> block throws is caught and answered by tier 2, whose errors propagate.
\<close>

definition two_tier :: "env \<Rightarrow> string \<Rightarrow> string \<Rightarrow> (error + json) \<times> event list" where
  "two_tier e system user =
     (if useResponses (OPENAI_MODEL e) then
        (case tier1 e system user of
           (Inr parsed, tr) \<Rightarrow> (Inr parsed, tr)
         | (Inl err, tr) \<Rightarrow> (case tier2 e system user of (r, tr') \<Rightarrow> (r, tr @ tr')))
      else tier2 e system user)"

definition generateWithOpenAI :: "env \<Rightarrow> string \<Rightarrow> string \<Rightarrow> (error + json) \<times> event list" where
  "generateWithOpenAI e aboutMe targetText =
     (let system = buildSystemPrompt;
          user = buildUserPrompt e aboutMe targetText
      in two_tier e system user)"

section \<open>The route handlers\<close>

record response =
  status :: nat
  body :: json

text \<open>\<open>res.status(s).json({ error: m })\<close>.\<close>

definition error_response :: "nat \<Rightarrow> string \<Rightarrow> response" where
  "error_response s m = \<lparr>status = s, body = JObj [(''error'', JStr m)]\<rparr>"

text \<open>The \<open>catch\<close> of both handlers: status 500 with \<open>error.message || 'Internal server error'\<close>.\<close>

definition caught :: "error \<Rightarrow> response" where
  "caught err = error_response 500 (if message err = [] then ''Internal server error'' else message err)"

text \<open>
  The sanity defaults that the generate handler (lines 306 to 308), the refine handler
  (lines 446 and 447) and the single-tier generate handler of \<open>server/src/index.ts\<close> (lines
  203 to 205) apply to the parsed payload: \<open>parsed.experience = parsed.experience || []\<close>,
  then \<open>parsed.skills = parsed.skills || { core: [] }\<close>. The result is the value that
  \<open>res.json\<close> then serialises. On \<open>null\<close> the property read throws; on a boolean, a number
  or a string the read gives \<open>undefined\<close> and the assignment throws (module code is strict).
  An array takes the two assignments as named properties, which serialisation leaves out.
\<close>

fun sanity_defaults :: "env \<Rightarrow> json \<Rightarrow> error + json" where
  "sanity_defaults e (JObj ps) =
     (let ps1 = set_prop ps ''experience'' (or_default (get_prop ps ''experience'') (JArr []));
          ps2 = set_prop ps1 ''skills'' (or_default (get_prop ps1 ''skills'') (JObj [(''core'', JArr [])]))
      in Inr (JObj ps2))"
| "sanity_defaults e (JArr xs) = Inr (JArr xs)"
| "sanity_defaults e v = Inl (TypeError (type_error_message e v))"

text \<open>\<open>!v || typeof v !== 'string' || v.trim().length === 0\<close>.\<close>

definition blank_text :: "json option \<Rightarrow> bool" where
  "blank_text v = (\<not> truthy v \<or> typeof v \<noteq> TString \<or> length (trim (str_of v)) = 0)"

record generate_body =
  targetText :: "json option"
  aboutMe :: "json option"

text \<open>
  \<open>POST /api/generate\<close>. The about-me text comes from the request, or from the disk when
  the request has none (\<open>source_about\<close>, lines 292 to 294; the test \<open>!about\<close> of line 295 can
  only succeed after the disk was tried); then the key is checked and the client is
  called. \<open>finish\<close> is the end of both handlers: an error thrown by the client or by the
  defaults is caught, otherwise the answer is \<open>res.json({ resume: parsed })\<close>.
\<close>

definition source_about :: "env \<Rightarrow> json option \<Rightarrow> string \<times> event list" where
  "source_about e about_arg =
     (if blank_text about_arg then
        (case readAboutMeFromDisk e of
           (None, tr) \<Rightarrow> ([], tr)
         | (Some content, tr) \<Rightarrow> (content, tr))
      else (str_of about_arg, []))"

definition finish :: "env \<Rightarrow> error + json \<Rightarrow> response" where
  "finish e r =
     (case r of
        Inl err \<Rightarrow> caught err
      | Inr parsed \<Rightarrow>
          (case sanity_defaults e parsed of
             Inl err \<Rightarrow> caught err
           | Inr resume \<Rightarrow> \<lparr>status = 200, body = JObj [(''resume'', resume)]\<rparr>))"

definition handle_generate :: "env \<Rightarrow> generate_body \<Rightarrow> response \<times> event list" where
  "handle_generate e req =
     (if blank_text (targetText req) then (error_response 400 ''Missing targetText'', [])
      else
        (case source_about e (aboutMe req) of (about, tr) \<Rightarrow>
           if about = [] then (error_response 400 ''Missing aboutMe content'', tr)
           else if api_key_missing e then
             (error_response 500 ''OPENAI_API_KEY is not configured in server/.env'', tr)
           else
             (case generateWithOpenAI e about (str_of (targetText req)) of
                (r, tr') \<Rightarrow> (finish e r, tr @ tr'))))"

record refine_body =
  resume :: "json option"
  feedback :: "json option"

text \<open>\<open>POST /api/refine\<close>.\<close>

definition handle_refine :: "env \<Rightarrow> refine_body \<Rightarrow> response \<times> event list" where
  "handle_refine e req =
     (if \<not> truthy (resume req) \<or> typeof (resume req) \<noteq> TObject then
        (error_response 400 ''Missing resume object'', [])
      else if \<not> truthy (feedback req) \<or> typeof (feedback req) \<noteq> TString then
        (error_response 400 ''Missing feedback'', [])
      else if api_key_missing e then
        (error_response 500 ''OPENAI_API_KEY is not configured in server/.env'', [])
      else
        (let systemPrompt = refine_systemPrompt;
             userPrompt = refine_userPrompt e (val_of (resume req)) (str_of (feedback req))
         in case two_tier e systemPrompt userPrompt of (r, tr) \<Rightarrow> (finish e r, tr)))"

section \<open>The refine handler on a store of objects\<close>

text \<open>
  JavaScript objects are mutable and held by reference, so whether the refine handler
  changes the resume it was given is a question about the memory. Here the memory is a
  store, the list of the objects allocated so far, and an address is an index into it.
  A cell holds an object with its nested values inline: the handler assigns top-level
  properties only. The request's \<open>resume\<close> is undefined, a primitive, or a reference
  into the store (a reference to no cell reads as undefined); \<open>feedback\<close> is used as a
  string, which is immutable.
\<close>

type_synonym store = "json list"

datatype jsvalue = Undefined | Prim json | Ref nat

fun deref :: "store \<Rightarrow> jsvalue \<Rightarrow> json option" where
  "deref st Undefined = None"
| "deref st (Prim v) = Some v"
| "deref st (Ref a) = (if a < length st then Some (st ! a) else None)"

text \<open>\<open>JSON.parse\<close> returns a value of its own: a new cell, at the first free address.\<close>

definition alloc :: "store \<Rightarrow> json \<Rightarrow> nat \<times> store" where
  "alloc st v = (length st, st @ [v])"

text \<open>The assignment \<open>parsed.k = parsed.k || d\<close> on the cell \<open>p\<close>.\<close>

definition assign_default :: "env \<Rightarrow> store \<Rightarrow> nat \<Rightarrow> string \<Rightarrow> json \<Rightarrow> error + store" where
  "assign_default e st p k d =
     (case deref st (Ref p) of
        None \<Rightarrow> Inl (TypeError (type_error_message e JNull))
      | Some (JObj ps) \<Rightarrow> Inr (st[p := JObj (set_prop ps k (or_default (get_prop ps k) d))])
      | Some (JArr xs) \<Rightarrow> Inr st
      | Some v \<Rightarrow> Inl (TypeError (type_error_message e v)))"

definition defaults_in_place :: "env \<Rightarrow> store \<Rightarrow> nat \<Rightarrow> error + store" where
  "defaults_in_place e st p =
     (case assign_default e st p ''experience'' (JArr []) of
        Inl err \<Rightarrow> Inl err
      | Inr st1 \<Rightarrow> assign_default e st1 p ''skills'' (JObj [(''core'', JArr [])]))"

text \<open>
  \<open>POST /api/refine\<close> again, now with the store threaded through. Besides the response
  and the trace it returns the store after the call and, on success, the address of the
  document it answers with.
\<close>

definition handle_refine_store ::
    "env \<Rightarrow> store \<Rightarrow> jsvalue \<Rightarrow> json option \<Rightarrow> (response \<times> event list) \<times> store \<times> nat option" where
  "handle_refine_store e st resume_ref feedback_arg =
     (let resume_val = deref st resume_ref in
      if \<not> truthy resume_val \<or> typeof resume_val \<noteq> TObject then
        ((error_response 400 ''Missing resume object'', []), st, None)
      else if \<not> truthy feedback_arg \<or> typeof feedback_arg \<noteq> TString then
        ((error_response 400 ''Missing feedback'', []), st, None)
      else if api_key_missing e then
        ((error_response 500 ''OPENAI_API_KEY is not configured in server/.env'', []), st, None)
      else
        (let systemPrompt = refine_systemPrompt;
             userPrompt = refine_userPrompt e (val_of resume_val) (str_of feedback_arg)
         in case two_tier e systemPrompt userPrompt of
              (Inl err, tr) \<Rightarrow> ((caught err, tr), st, None)
            | (Inr parsed, tr) \<Rightarrow>
                (case alloc st parsed of (p, st1) \<Rightarrow>
                   (case defaults_in_place e st1 p of
                      Inl err \<Rightarrow> ((caught err, tr), st1, None)
                    | Inr st2 \<Rightarrow>
                        ((\<lparr>status = 200, body = JObj [(''resume'', val_of (deref st2 (Ref p)))]\<rparr>, tr),
                         st2, Some p)))))"

section \<open>Reading a response, and an environment for the examples\<close>

text \<open>The member \<open>k\<close> of a value that may be absent; \<open>None\<close> when there is none.\<close>

fun member :: "json option \<Rightarrow> string \<Rightarrow> json option" where
  "member (Some (JObj ps)) k = get_prop ps k"
| "member _ k = None"

definition resume_of :: "response \<Rightarrow> json option" where
  "resume_of r = member (Some (body r)) ''resume''"


text \<open>
  The examples run against a stubbed environment: a key is configured, no model name is
  set (so the model is \<open>gpt-5\<close>), no about-me file exists, and both provider calls answer
  with the text \<open>{}\<close>. The provider stubs do not look at the prompt, so the serialiser is a
  stub too. \<open>parse_table\<close> is \<open>JSON.parse\<close> on the payloads that the examples use (the
  messages are in the style of V8); it is not meant for any other text.
\<close>

definition parse_table :: "string \<Rightarrow> string + json" where
  \<open>parse_table t =
     (if t = ''{}'' then Inr (JObj [])
      else if t = ''{"skills":{}}'' then Inr (JObj [(''skills'', JObj [])])
      else if t = ''I cannot help with that.'' then Inl ''Unexpected token I in JSON at position 0''
      else Inl ''Unexpected end of JSON input'')\<close>

definition example_env :: env where
  \<open>example_env =
     \<lparr>OPENAI_API_KEY = Some ''sk-test'',
      env_OPENAI_MODEL = None,
      responses_create = (\<lambda>rq. Inr \<lparr>output_text = Some ''{}'', output_0_content_0_text = None\<rparr>),
      chat_completions_create = (\<lambda>cq. Inr \<lparr>choices = [Some ''{}'']\<rparr>),
      readFile = (\<lambda>p. None),
      JSON_parse = parse_table,
      JSON_stringify = (\<lambda>v. ''{}''),
      type_error_message = (\<lambda>v. ''Cannot create property'')\<rparr>\<close>

definition example_generate :: generate_body where
  \<open>example_generate = \<lparr>targetText = Some (JStr ''Compiler engineer at Acme''),
                         aboutMe = Some (JStr ''Ten years of OCaml.'')\<rparr>\<close>

text \<open>Variations of it: what the two provider calls answer, the model name, the disk.\<close>

definition tier1_rejected_env :: env where
  \<open>tier1_rejected_env = example_env\<lparr>responses_create := \<lambda>rq. Inl ''400 Unsupported parameter''\<rparr>\<close>

definition rate_limited_env :: env where
  \<open>rate_limited_env =
     example_env\<lparr>env_OPENAI_MODEL := Some ''gpt-4o-mini'',
                 chat_completions_create := \<lambda>cq. Inl ''429 Rate limit reached''\<rparr>\<close>

definition bare_skills_env :: env where
  \<open>bare_skills_env =
     example_env\<lparr>responses_create :=
       \<lambda>rq. Inr \<lparr>output_text = Some ''{"skills":{}}'', output_0_content_0_text = None\<rparr>\<rparr>\<close>

definition refusing_env :: env where
  \<open>refusing_env =
     example_env\<lparr>responses_create :=
                   \<lambda>rq. Inr \<lparr>output_text = Some ''I cannot help with that.'', output_0_content_0_text = None\<rparr>,
                 chat_completions_create := \<lambda>cq. Inr \<lparr>choices = [Some ''I cannot help with that.'']\<rparr>\<rparr>\<close>

definition rejecting_env :: env where
  \<open>rejecting_env =
     example_env\<lparr>responses_create := \<lambda>rq. Inl ''Unexpected token I in JSON at position 0'',
                 chat_completions_create := \<lambda>cq. Inl ''Unexpected token I in JSON at position 0''\<rparr>\<close>

definition example_disk :: "string \<Rightarrow> string option" where
  \<open>example_disk p = Some ''Twenty years of COBOL.''\<close>

definition example_refine :: refine_body where
  \<open>example_refine = \<lparr>resume = Some (JObj [(''name'', JStr ''Ada'')]), feedback = Some (JStr ''condense'')\<rparr>\<close>

definition example_store :: store where
  \<open>example_store = [JObj [(''name'', JStr ''Ada'')]]\<close>

section \<open>Properties\<close>

subsection \<open>Evaluating the examples\<close>

lemmas run_defs = handle_generate_def handle_refine_def source_about_def blank_text_def trim_def
  is_space_def api_key_missing_def generateWithOpenAI_def two_tier_def tier1_def tier2_def
  OPENAI_MODEL_def parse_json_def chat_payload_def responses_payload_def finish_def caught_def
  error_response_def resume_of_def get_prop_def or_default_def Let_def

lemmas example_defs = example_env_def example_generate_def example_refine_def parse_table_def
  tier1_rejected_env_def rate_limited_env_def bare_skills_env_def refusing_env_def
  rejecting_env_def

lemma example_generate_valid:
  "\<not> blank_text (targetText example_generate)"
  "\<not> blank_text (aboutMe example_generate)"
  "fst (source_about e (aboutMe example_generate)) \<noteq> []"
  by (simp_all add: example_generate_def blank_text_def source_about_def trim_def is_space_def)




subsection \<open>Responses\<close>

lemma status_error_response: "status (error_response s m) = s"
  by (simp add: error_response_def)

lemma status_caught: "status (caught err) = 500"
  by (simp add: caught_def error_response_def)

subsection \<open>The two tiers\<close>

lemma snd_tier1: "snd (tier1 e s u) = [ResponsesCreate (tier1_request e s u)]"
  by (simp add: tier1_def Let_def)

lemma snd_tier2: "snd (tier2 e s u) = [ChatCompletionsCreate (tier2_request e s u)]"
  by (simp add: tier2_def Let_def)

lemma two_tier_fallback:
  assumes "useResponses (OPENAI_MODEL e)" and "fst (tier1 e s u) = Inl err"
  shows "two_tier e s u =
    (fst (tier2 e s u), [ResponsesCreate (tier1_request e s u), ChatCompletionsCreate (tier2_request e s u)])"
proof -
  obtain tr where t1: "tier1 e s u = (Inl err, tr)"
    using assms(2) by (cases "tier1 e s u") simp
  with snd_tier1 [of e s u] have tr: "tr = [ResponsesCreate (tier1_request e s u)]" by simp
  obtain r tr' where t2: "tier2 e s u = (r, tr')" by (cases "tier2 e s u")
  with snd_tier2 [of e s u] have tr': "tr' = [ChatCompletionsCreate (tier2_request e s u)]" by simp
  show ?thesis using assms(1) t1 t2 tr tr' by (simp add: two_tier_def)
qed

lemma two_tier_first_try:
  assumes "useResponses (OPENAI_MODEL e)" and "fst (tier1 e s u) = Inr parsed"
  shows "two_tier e s u = (Inr parsed, [ResponsesCreate (tier1_request e s u)])"
proof -
  obtain tr where t1: "tier1 e s u = (Inr parsed, tr)"
    using assms(2) by (cases "tier1 e s u") simp
  with snd_tier1 [of e s u] have tr: "tr = [ResponsesCreate (tier1_request e s u)]" by simp
  show ?thesis using assms(1) t1 tr by (simp add: two_tier_def)
qed

lemma two_tier_single:
  assumes "\<not> useResponses (OPENAI_MODEL e)"
  shows "two_tier e s u = (fst (tier2 e s u), [ChatCompletionsCreate (tier2_request e s u)])"
  using assms snd_tier2 [of e s u] by (cases "tier2 e s u") (simp add: two_tier_def)





lemma two_tier_reads_no_file: "filter is_file_read (snd (two_tier e s u)) = []"
proof (cases "useResponses (OPENAI_MODEL e)")
  case True
  show ?thesis
  proof (cases "fst (tier1 e s u)")
    case (Inl err)
    with two_tier_fallback [OF True Inl] show ?thesis by simp
  next
    case (Inr parsed)
    with two_tier_first_try [OF True Inr] show ?thesis by simp
  qed
next
  case False
  with two_tier_single [OF False, of s u] show ?thesis by simp
qed




lemma refine_reaches_client:
  assumes "truthy (resume req)" and "typeof (resume req) = TObject"
    and "truthy (feedback req)" and "typeof (feedback req) = TString" and "\<not> api_key_missing e"
  shows "handle_refine e req =
    (finish e (fst (two_tier e refine_systemPrompt (refine_userPrompt e (val_of (resume req)) (str_of (feedback req))))),
     snd (two_tier e refine_systemPrompt (refine_userPrompt e (val_of (resume req)) (str_of (feedback req)))))"
  using assms by (simp add: handle_refine_def Let_def split: prod.splits)




subsection \<open>Input validation\<close>

lemma blank_text_iff:
  "blank_text v \<longleftrightarrow> v = None \<or> typeof v \<noteq> TString \<or> trim (str_of v) = []"
proof (cases v)
  case None
  then show ?thesis by (simp add: blank_text_def)
next
  case (Some x)
  then show ?thesis by (cases x) (auto simp: blank_text_def trim_def)
qed


text \<open>
  Claim C4. A generate request whose \<open>targetText\<close> is absent, is not a string, or is
  empty after trimming is answered with status 400 and the message \<open>Missing targetText\<close>,
  and nothing has happened by then: the trace is empty, so the provider was not invoked
  (and no file was read).
\<close>

theorem generate_missing_targetText:
  assumes "targetText req = None \<or> typeof (targetText req) \<noteq> TString \<or> trim (str_of (targetText req)) = []"
  shows "handle_generate e req = (error_response 400 ''Missing targetText'', [])"
  using assms by (simp add: handle_generate_def blank_text_iff)

theorem generate_missing_targetText_witness:
  "trim (str_of (targetText (example_generate\<lparr>targetText := Some (JStr '' '')\<rparr>))) = [] \<and>
   handle_generate example_env (example_generate\<lparr>targetText := Some (JStr '' '')\<rparr>) =
     (error_response 400 ''Missing targetText'', [])"
proof -
  have h: "trim (str_of (targetText (example_generate\<lparr>targetText := Some (JStr '' '')\<rparr>))) = []"
    by (simp add: trim_def is_space_def)
  from h generate_missing_targetText [of "example_generate\<lparr>targetText := Some (JStr '' '')\<rparr>" example_env]
  show ?thesis by blast
qed



subsection \<open>The sanity defaults\<close>

lemma get_set_prop_same: "get_prop (set_prop ps k v) k = Some v"
  by (induction ps) (auto simp: get_prop_def)

lemma get_set_prop_other: "k' \<noteq> k \<Longrightarrow> get_prop (set_prop ps k v) k' = get_prop ps k'"
  by (induction ps) (auto simp: get_prop_def)


lemma or_default_truthy: "truthy v \<Longrightarrow> Some (or_default v d) = v"
  by (cases v) (auto simp: or_default_def)

lemma or_default_falsy: "\<not> truthy v \<Longrightarrow> or_default v d = d"
  by (cases v) (auto simp: or_default_def)

lemma sanity_defaults_JObj:
  "sanity_defaults e (JObj ps) =
     Inr (JObj (set_prop (set_prop ps ''experience'' (or_default (get_prop ps ''experience'') (JArr [])))
                 ''skills'' (or_default (get_prop ps ''skills'') (JObj [(''core'', JArr [])]))))"
  by (simp add: Let_def get_set_prop_other)


text \<open>
  Claim C5, as stated, fails: an \<open>experience\<close> that is present and truthy but not a list
  (here the string \<open>abc\<close>) is kept as it is, not replaced by an empty list.
\<close>

theorem sanity_defaults_keeps_non_list:
  "sanity_defaults example_env (JObj [(''experience'', JStr ''abc'')]) =
     Inr (JObj [(''experience'', JStr ''abc''), (''skills'', JObj [(''core'', JArr [])])])"
  by (simp add: or_default_def get_prop_def)

text \<open>
  Claim C5, amended. On every parsed object the sanity defaults succeed and do not depend
  on the environment. They replace an \<open>experience\<close> that is absent or falsy (null, false,
  zero, the empty string) by the empty list and a \<open>skills\<close> that is absent or falsy by
  \<open>{ core: [] }\<close>; a truthy value of either, list or not, is kept, and so is every other
  property.
\<close>

theorem sanity_defaults_on_objects:
  "\<exists>ps'. sanity_defaults e (JObj ps) = Inr (JObj ps') \<and>
     (truthy (get_prop ps ''experience'') \<longrightarrow> get_prop ps' ''experience'' = get_prop ps ''experience'') \<and>
     (\<not> truthy (get_prop ps ''experience'') \<longrightarrow> get_prop ps' ''experience'' = Some (JArr [])) \<and>
     (truthy (get_prop ps ''skills'') \<longrightarrow> get_prop ps' ''skills'' = get_prop ps ''skills'') \<and>
     (\<not> truthy (get_prop ps ''skills'') \<longrightarrow> get_prop ps' ''skills'' = Some (JObj [(''core'', JArr [])])) \<and>
     (\<forall>k. k \<noteq> ''experience'' \<and> k \<noteq> ''skills'' \<longrightarrow> get_prop ps' k = get_prop ps k) \<and>
     sanity_defaults e' (JObj ps) = sanity_defaults e (JObj ps)"
proof (intro exI conjI impI allI)
  show "sanity_defaults e (JObj ps) =
      Inr (JObj (set_prop (set_prop ps ''experience'' (or_default (get_prop ps ''experience'') (JArr [])))
                  ''skills'' (or_default (get_prop ps ''skills'') (JObj [(''core'', JArr [])]))))"
    by (rule sanity_defaults_JObj)
qed (simp_all add: get_set_prop_same get_set_prop_other or_default_truthy or_default_falsy Let_def)

theorem sanity_defaults_on_objects_witness:
  "\<exists>ps'. sanity_defaults example_env (JObj [(''name'', JStr ''Ada''), (''experience'', JNull)]) = Inr (JObj ps') \<and>
     get_prop ps' ''experience'' = Some (JArr []) \<and>
     get_prop ps' ''skills'' = Some (JObj [(''core'', JArr [])]) \<and>
     get_prop ps' ''name'' = Some (JStr ''Ada'')"
  using sanity_defaults_on_objects [of example_env "[(''name'', JStr ''Ada''), (''experience'', JNull)]"]
  by (auto simp: get_prop_def)

subsection \<open>What a successful call returns\<close>







subsection \<open>Unparseable output\<close>

text \<open>
  Claim C3, on the code. Both tiers answer with the text \<open>I cannot help with that.\<close>, which
  is not JSON. The generate handler answers with status 500 and a body whose only member
  is \<open>error\<close>, holding the message of the \<open>SyntaxError\<close>: the raw text is not attached, and
  the response is the very one given when the provider rejects both calls with that
  message.
\<close>

theorem unparseable_output_is_a_plain_500:
  "fst (handle_generate refusing_env example_generate) =
     \<lparr>status = 500, body = JObj [(''error'', JStr ''Unexpected token I in JSON at position 0'')]\<rparr> \<and>
   member (Some (body (fst (handle_generate refusing_env example_generate)))) ''raw'' = None \<and>
   fst (handle_generate refusing_env example_generate) = fst (handle_generate rejecting_env example_generate)"
  by (simp add: run_defs example_defs)

subsection \<open>The about-me text and the disk\<close>

lemma parse_json_ignores_files: "parse_json (e\<lparr>readFile := d\<rparr>) t = parse_json e t"
  by (simp add: parse_json_def)

lemma tier1_ignores_files: "tier1 (e\<lparr>readFile := d\<rparr>) s u = tier1 e s u"
  by (simp add: tier1_def tier1_request_def OPENAI_MODEL_def parse_json_ignores_files Let_def
      cong: sum.case_cong)

lemma tier2_ignores_files: "tier2 (e\<lparr>readFile := d\<rparr>) s u = tier2 e s u"
  by (simp add: tier2_def tier2_request_def OPENAI_MODEL_def parse_json_ignores_files Let_def
      cong: sum.case_cong)

lemma two_tier_ignores_files: "two_tier (e\<lparr>readFile := d\<rparr>) s u = two_tier e s u"
  by (simp add: two_tier_def tier1_ignores_files tier2_ignores_files OPENAI_MODEL_def
      cong: prod.case_cong sum.case_cong)

lemma generateWithOpenAI_ignores_files:
  "generateWithOpenAI (e\<lparr>readFile := d\<rparr>) about target = generateWithOpenAI e about target"
  by (simp add: generateWithOpenAI_def buildUserPrompt_def two_tier_ignores_files)

lemma finish_ignores_files: "finish (e\<lparr>readFile := d\<rparr>) r = finish e r"
proof (cases r)
  case (Inl err)
  then show ?thesis by (simp add: finish_def)
next
  case (Inr parsed)
  then show ?thesis by (cases parsed) (simp_all add: finish_def)
qed

lemma source_about_supplied: "\<not> blank_text a \<Longrightarrow> source_about e a = (str_of a, [])"
  by (simp add: source_about_def)

lemma source_about_blank: "blank_text a \<Longrightarrow> snd (source_about e a) = snd (readAboutMeFromDisk e)"
  by (simp add: source_about_def split: prod.splits option.splits)

lemma read_candidates_only_reads: "filter is_file_read (snd (read_candidates e ps)) = snd (read_candidates e ps)"
  by (induction ps) (auto split: option.splits prod.splits)

lemma file_reads_of_generate:
  "filter is_file_read (snd (handle_generate e req)) =
     (if blank_text (targetText req) \<or> \<not> blank_text (aboutMe req) then [] else snd (readAboutMeFromDisk e))"
proof (cases "blank_text (targetText req)")
  case True
  then show ?thesis by (simp add: handle_generate_def)
next
  case False
  obtain about tr where sa: "source_about e (aboutMe req) = (about, tr)"
    by (cases "source_about e (aboutMe req)")
  have tr: "filter is_file_read tr = (if blank_text (aboutMe req) then snd (readAboutMeFromDisk e) else [])"
    using sa source_about_supplied [of "aboutMe req" e] source_about_blank [of "aboutMe req" e]
      read_candidates_only_reads [of e candidates]
    by (auto simp: readAboutMeFromDisk_def)
  obtain r tr' where g: "generateWithOpenAI e about (str_of (targetText req)) = (r, tr')"
    by (cases "generateWithOpenAI e about (str_of (targetText req))")
  then have tr': "filter is_file_read tr' = []"
    using two_tier_reads_no_file [of e buildSystemPrompt "buildUserPrompt e about (str_of (targetText req))"]
    by (simp add: generateWithOpenAI_def)
  have "filter is_file_read (snd (handle_generate e req)) = filter is_file_read tr"
    using False sa g tr' by (simp add: handle_generate_def)
  with tr False show ?thesis by simp
qed

text \<open>
  Claim C9. \<open>generateWithOpenAI\<close> takes the about-me text as an argument: for every
  argument its result and its trace are the same whatever the disk holds, and it reads no
  file. When the request supplies an about-me string that is not blank, the handler
  passes it on and the same holds of the whole handler. The only file reads of a generate
  request are those of \<open>readAboutMeFromDisk\<close>, made by the handler when the request has a
  target text but no about-me text, before the client is called.
\<close>

theorem core_takes_aboutMe_as_parameter:
  "generateWithOpenAI (e\<lparr>readFile := d\<rparr>) about target = generateWithOpenAI e about target \<and>
   filter is_file_read (snd (generateWithOpenAI e about target)) = [] \<and>
   (\<not> blank_text (aboutMe req) \<longrightarrow>
      handle_generate (e\<lparr>readFile := d\<rparr>) req = handle_generate e req \<and>
      filter is_file_read (snd (handle_generate e req)) = []) \<and>
   filter is_file_read (snd (handle_generate e req)) =
     (if blank_text (targetText req) \<or> \<not> blank_text (aboutMe req) then [] else snd (readAboutMeFromDisk e))"
proof (intro conjI impI)
  show "generateWithOpenAI (e\<lparr>readFile := d\<rparr>) about target = generateWithOpenAI e about target"
    by (rule generateWithOpenAI_ignores_files)
  show "filter is_file_read (snd (generateWithOpenAI e about target)) = []"
    by (simp add: generateWithOpenAI_def two_tier_reads_no_file)
  show "filter is_file_read (snd (handle_generate e req)) =
     (if blank_text (targetText req) \<or> \<not> blank_text (aboutMe req) then [] else snd (readAboutMeFromDisk e))"
    by (rule file_reads_of_generate)
next
  assume a: "\<not> blank_text (aboutMe req)"
  then show "filter is_file_read (snd (handle_generate e req)) = []"
    by (simp add: file_reads_of_generate)
  from a show "handle_generate (e\<lparr>readFile := d\<rparr>) req = handle_generate e req"
    by (simp add: handle_generate_def source_about_supplied generateWithOpenAI_ignores_files
        finish_ignores_files api_key_missing_def)
qed

theorem core_takes_aboutMe_as_parameter_witness:
  "\<not> blank_text (aboutMe example_generate) \<and>
   handle_generate (example_env\<lparr>readFile := example_disk\<rparr>) example_generate =
     handle_generate example_env example_generate \<and>
   filter is_file_read (snd (handle_generate example_env example_generate)) = []"
  using example_generate_valid(2)
    core_takes_aboutMe_as_parameter [where e = example_env and d = example_disk and req = example_generate]
  by blast

subsection \<open>The refine handler and the store\<close>

lemma deref_append: "deref st v \<noteq> None \<Longrightarrow> deref (st @ xs) v = deref st v"
  by (cases v) (auto simp: nth_append split: if_splits)

lemma assign_default_fresh:
  "assign_default e (st @ [v]) (length st) k d =
     (case v of
        JObj ps \<Rightarrow> Inr (st @ [JObj (set_prop ps k (or_default (get_prop ps k) d))])
      | JArr xs \<Rightarrow> Inr (st @ [v])
      | _ \<Rightarrow> Inl (TypeError (type_error_message e v)))"
  by (cases v) (simp_all add: assign_default_def)

lemma defaults_in_place_fresh:
  "defaults_in_place e (st @ [parsed]) (length st) =
     (case sanity_defaults e parsed of Inl err \<Rightarrow> Inl err | Inr doc \<Rightarrow> Inr (st @ [doc]))"
  by (cases parsed) (simp_all add: defaults_in_place_def assign_default_fresh Let_def get_set_prop_other)

lemma handle_refine_store_cases:
  "handle_refine_store e st rr fb =
     (if \<not> truthy (deref st rr) \<or> typeof (deref st rr) \<noteq> TObject \<or> \<not> truthy fb \<or> typeof fb \<noteq> TString \<or>
         api_key_missing e
      then (handle_refine e \<lparr>resume = deref st rr, feedback = fb\<rparr>, st, None)
      else
        (case fst (two_tier e refine_systemPrompt (refine_userPrompt e (val_of (deref st rr)) (str_of fb))) of
           Inl err \<Rightarrow> (handle_refine e \<lparr>resume = deref st rr, feedback = fb\<rparr>, st, None)
         | Inr parsed \<Rightarrow>
             (case sanity_defaults e parsed of
                Inl err \<Rightarrow> (handle_refine e \<lparr>resume = deref st rr, feedback = fb\<rparr>, st @ [parsed], None)
              | Inr doc \<Rightarrow>
                  (handle_refine e \<lparr>resume = deref st rr, feedback = fb\<rparr>, st @ [doc], Some (length st)))))"
  by (auto simp: handle_refine_store_def handle_refine_def Let_def alloc_def defaults_in_place_fresh
      finish_def split: prod.splits sum.splits)

text \<open>
  Claim C8. Whatever the refine handler answers, every cell that the store held before
  the call holds the same value after it, so the prior resume, wherever the request's
  reference points, reads the same before and after. When the call succeeds the document
  in the response lives in a cell that did not exist before the call: it is the value
  parsed from the provider's payload, with the defaults applied to that new cell. The
  response and the trace are those of the handler as modelled without a store.
\<close>

theorem refine_leaves_prior_resume_unchanged:
  assumes "handle_refine_store e st rr fb = (out, st', new)"
  shows "take (length st) st' = st \<and> deref st' rr = deref st rr \<and>
         (status (fst out) = 200 \<longrightarrow>
            new = Some (length st) \<and> length st' = Suc (length st) \<and>
            resume_of (fst out) = deref st' (Ref (length st))) \<and>
         out = handle_refine e \<lparr>resume = deref st rr, feedback = fb\<rparr>"
proof (cases "\<not> truthy (deref st rr) \<or> typeof (deref st rr) \<noteq> TObject \<or> \<not> truthy fb \<or> typeof fb \<noteq> TString \<or>
         api_key_missing e")
  case True
  with assms have o: "out = handle_refine e \<lparr>resume = deref st rr, feedback = fb\<rparr>" and s: "st' = st"
    by (auto simp: handle_refine_store_cases)
  from True have "status (fst (handle_refine e \<lparr>resume = deref st rr, feedback = fb\<rparr>)) \<noteq> 200"
    by (auto simp: handle_refine_def status_error_response)
  with o s show ?thesis by simp
next
  case False
  then have "truthy (deref st rr)" by simp
  then have d: "deref st rr \<noteq> None" by (cases "deref st rr") simp_all
  let ?t = "two_tier e refine_systemPrompt (refine_userPrompt e (val_of (deref st rr)) (str_of fb))"
  have h: "handle_refine e \<lparr>resume = deref st rr, feedback = fb\<rparr> = (finish e (fst ?t), snd ?t)"
    using False refine_reaches_client [of "\<lparr>resume = deref st rr, feedback = fb\<rparr>" e] by simp
  show ?thesis
  proof (cases "fst ?t")
    case (Inl err)
    with assms False have "out = handle_refine e \<lparr>resume = deref st rr, feedback = fb\<rparr>" and "st' = st"
      by (auto simp: handle_refine_store_cases)
    with h Inl show ?thesis by (simp add: finish_def status_caught)
  next
    case (Inr parsed)
    show ?thesis
    proof (cases "sanity_defaults e parsed")
      case (Inl err)
      with assms False Inr have "out = handle_refine e \<lparr>resume = deref st rr, feedback = fb\<rparr>"
        and "st' = st @ [parsed]"
        by (auto simp: handle_refine_store_cases)
      with h Inr Inl d show ?thesis by (simp add: finish_def status_caught deref_append)
    next
      case (Inr doc)
      with assms False \<open>fst ?t = Inr parsed\<close>
      have "out = handle_refine e \<lparr>resume = deref st rr, feedback = fb\<rparr>"
        and "st' = st @ [doc]" and "new = Some (length st)"
        by (auto simp: handle_refine_store_cases)
      with h Inr \<open>fst ?t = Inr parsed\<close> d show ?thesis
        by (simp add: finish_def deref_append resume_of_def get_prop_def)
    qed
  qed
qed

theorem refine_leaves_prior_resume_unchanged_witness:
  "deref (fst (snd (handle_refine_store example_env example_store (Ref 0) (Some (JStr ''condense''))))) (Ref 0) =
     Some (JObj [(''name'', JStr ''Ada'')]) \<and>
   snd (handle_refine_store example_env example_store (Ref 0) (Some (JStr ''condense''))) =
     ([JObj [(''name'', JStr ''Ada'')],
       JObj [(''experience'', JArr []), (''skills'', JObj [(''core'', JArr [])])]], Some 1) \<and>
   status (fst (fst (handle_refine_store example_env example_store (Ref 0) (Some (JStr ''condense''))))) = 200"
proof -
  let ?run = "handle_refine_store example_env example_store (Ref 0) (Some (JStr ''condense''))"
  have s: "status (fst (fst ?run)) = 200"
    by (simp add: handle_refine_store_cases run_defs example_defs example_store_def)
  have d: "fst (snd ?run) =
      example_store @ [JObj [(''experience'', JArr []), (''skills'', JObj [(''core'', JArr [])])]]"
    by (simp add: handle_refine_store_cases run_defs example_defs example_store_def)
  have "?run = (fst ?run, fst (snd ?run), snd (snd ?run))" by simp
  from refine_leaves_prior_resume_unchanged [OF this] s d
  show ?thesis by (simp add: prod_eq_iff example_store_def)
qed

end
